theory Spec2Isabelle
  imports Complex_Main
begin

section \<open>Numbers of the source language\<close>

text \<open>
  Every quantity of the terminal network (assets, thresholds, amounts, costs) is a
  JavaScript number. The model keeps the two kinds of value the network's arithmetic can
  produce from stores of whole units: a finite value, taken as an exact rational, and
  \<open>NaN\<close>. \<open>NaN\<close> also stands for a property that is \<open>undefined\<close> wherever the code
  uses it as a number, since \<open>undefined\<close> converts to \<open>NaN\<close> there. Rounding of doubles
  and the two infinities are outside the model.
\<close>

datatype jsnum = NaN | Fin rat

fun js_add :: "jsnum \<Rightarrow> jsnum \<Rightarrow> jsnum" where
  "js_add (Fin a) (Fin b) = Fin (a + b)"
| "js_add _ _ = NaN"

fun js_sub :: "jsnum \<Rightarrow> jsnum \<Rightarrow> jsnum" where
  "js_sub (Fin a) (Fin b) = Fin (a - b)"
| "js_sub _ _ = NaN"

fun js_mul :: "jsnum \<Rightarrow> jsnum \<Rightarrow> jsnum" where
  "js_mul (Fin a) (Fin b) = Fin (a * b)"
| "js_mul _ _ = NaN"

text \<open>
  Division: \<open>0 / 0\<close> is \<open>NaN\<close>. A non-zero value over zero would be an infinity; the
  source never divides one (its only divisor that can be zero is the length of the list
  whose sum, then zero, it divides), so that case is given as \<open>NaN\<close> too.
\<close>

fun js_div :: "jsnum \<Rightarrow> jsnum \<Rightarrow> jsnum" where
  "js_div (Fin a) (Fin b) = (if b = 0 then NaN else Fin (a / b))"
| "js_div _ _ = NaN"

text \<open>The comparisons: each is false as soon as one side is \<open>NaN\<close>.\<close>

fun js_lt :: "jsnum \<Rightarrow> jsnum \<Rightarrow> bool" where
  "js_lt (Fin a) (Fin b) = (a < b)"
| "js_lt _ _ = False"

fun js_le :: "jsnum \<Rightarrow> jsnum \<Rightarrow> bool" where
  "js_le (Fin a) (Fin b) = (a \<le> b)"
| "js_le _ _ = False"

definition js_gt :: "jsnum \<Rightarrow> jsnum \<Rightarrow> bool" where
  "js_gt a b = js_lt b a"

definition js_ge :: "jsnum \<Rightarrow> jsnum \<Rightarrow> bool" where
  "js_ge a b = js_le b a"

text \<open>\<open>Math.max\<close> and \<open>Math.min\<close>: \<open>NaN\<close> if an argument is \<open>NaN\<close>.\<close>

fun js_max :: "jsnum \<Rightarrow> jsnum \<Rightarrow> jsnum" where
  "js_max (Fin a) (Fin b) = Fin (max a b)"
| "js_max _ _ = NaN"

fun js_min :: "jsnum \<Rightarrow> jsnum \<Rightarrow> jsnum" where
  "js_min (Fin a) (Fin b) = Fin (min a b)"
| "js_min _ _ = NaN"

definition js_min3 :: "jsnum \<Rightarrow> jsnum \<Rightarrow> jsnum \<Rightarrow> jsnum" where
  "js_min3 a b c = js_min (js_min a b) c"

text \<open>The idiom \<open>x || 0\<close> on a number: zero and \<open>NaN\<close> are falsy.\<close>

fun js_or0 :: "jsnum \<Rightarrow> jsnum" where
  "js_or0 (Fin a) = Fin a"
| "js_or0 NaN = Fin 0"

text \<open>
  \<open>_.sum\<close> of the runtime's lodash adds \<open>+value || 0\<close> for each element, so an element
  that is not a number counts as zero.
\<close>

definition lodash_sum :: "jsnum list \<Rightarrow> jsnum" where
  "lodash_sum xs = foldl (\<lambda>acc v. js_add acc (js_or0 v)) (Fin 0) xs"

section \<open>Data model\<close>

text \<open>
  A resource is its name (\<open>ResourceConstant\<close> is a type of string literals); a store or an
  asset table is an object from resource names to numbers, kept as an association list.
  Reading a key that is absent gives \<open>undefined\<close>, which every use below takes as a number.
\<close>

type_synonym resource = string

type_synonym store = "(resource \<times> jsnum) list"

definition RESOURCE_ENERGY :: resource where
  "RESOURCE_ENERGY = ''energy''"

definition RESOURCE_POWER :: resource where
  "RESOURCE_POWER = ''power''"

definition RESOURCE_OPS :: resource where
  "RESOURCE_OPS = ''ops''"

definition amountOf :: "store \<Rightarrow> resource \<Rightarrow> jsnum" where
  "amountOf st r = (case map_of st r of None \<Rightarrow> NaN | Some v \<Rightarrow> v)"

definition sumStore :: "store \<Rightarrow> jsnum" where
  "sumStore st = lodash_sum (map snd st)"

record terminal =
  roomName :: string
  my :: bool
  isReady :: bool
  hasReceived :: bool
  cooldown :: jsnum
  termStore :: store

record colony =
  name :: string
  level :: nat
  assets :: store
  terminal :: "terminal option"
  storage :: "store option"
  factory :: bool

record thresholds =
  target :: jsnum
  surplus :: "jsnum option"
  tolerance :: jsnum

datatype TN_STATE =
    activeProvider
  | passiveProvider
  | equilibrium
  | passiveRequestor
  | activeRequestor
  | error

text \<open>The numeric values of the enumeration; \<open>error\<close> is the only falsy one.\<close>

fun TN_STATE_value :: "TN_STATE \<Rightarrow> nat" where
  "TN_STATE_value activeProvider = 5"
| "TN_STATE_value passiveProvider = 4"
| "TN_STATE_value equilibrium = 3"
| "TN_STATE_value passiveRequestor = 2"
| "TN_STATE_value activeRequestor = 1"
| "TN_STATE_value error = 0"

datatype ScreepsReturnCode =
    OK
  | ERR_NOT_OWNER
  | ERR_NOT_ENOUGH_RESOURCES
  | ERR_INVALID_ARGS
  | ERR_TIRED
  | ERR_OTHER int

datatype js_error = TypeError

datatype log_level = LogError | LogWarning

text \<open>
  A notification is kept by its parts instead of the formatted line: a transfer line has
  origin, amount, resource, destination and description; the two other lines report an
  instance that could not be handled.
\<close>

datatype notification =
    TransferNote string jsnum resource string string
  | UnfulfilledRequest string jsnum resource
  | UnfulfilledProvide string jsnum resource

text \<open>Calls into the game engine and the market adapter, in the order they are made.\<close>

datatype call =
    Send string resource jsnum string ScreepsReturnCode
  | Buy string resource jsnum
  | Sell string resource jsnum bool

text \<open>
  The persistent statistics. In the source \<open>transfers\<close> holds the per-resource tallies and,
  under the key \<open>costs\<close>, the cost tallies; no resource is named \<open>costs\<close>, so the two are
  separate fields here.
\<close>

record tn_stats =
  transfers :: "resource \<rightharpoonup> (string \<rightharpoonup> (string \<rightharpoonup> jsnum))"
  costs :: "string \<rightharpoonup> (string \<rightharpoonup> jsnum)"
  avgCooldown :: "string \<rightharpoonup> jsnum"
  overload :: "string \<rightharpoonup> jsnum"

text \<open>
  The network object. \<open>console\<close> (what was logged) and \<open>calls\<close> (what was asked of the
  engine and the market) are not fields of the class: they record its output.
\<close>

record tn =
  colonies :: "colony list"
  colonyThresholds :: "string \<rightharpoonup> (resource \<rightharpoonup> thresholds)"
  energyThresholds :: "thresholds option"
  colonyStates :: "string \<rightharpoonup> (resource \<rightharpoonup> TN_STATE)"
  activeProviders :: "resource \<rightharpoonup> colony list"
  passiveProviders :: "resource \<rightharpoonup> colony list"
  equilibriumNodes :: "resource \<rightharpoonup> colony list"
  passiveRequestors :: "resource \<rightharpoonup> colony list"
  activeRequestors :: "resource \<rightharpoonup> colony list"
  netAssets :: store
  notifications :: "notification list"
  stats :: tn_stats
  terminalOverload :: "string \<rightharpoonup> bool"
  console :: "log_level list"
  calls :: "call list"

text \<open>
  What the network reads from outside itself: the engine's answer to a terminal send and
  its transaction cost, the credits and the market adapter's thresholds and answers, and
  the resource classes of \<open>Abathur\<close>.
\<close>

record env =
  send :: "string \<Rightarrow> resource \<Rightarrow> jsnum \<Rightarrow> string \<Rightarrow> ScreepsReturnCode"
  calcTransactionCost :: "jsnum \<Rightarrow> string \<Rightarrow> string \<Rightarrow> jsnum"
  credits :: jsnum
  canBuyEnergyAbove :: jsnum
  canBuyBoostsAbove :: jsnum
  buy :: "string \<Rightarrow> resource \<Rightarrow> jsnum \<Rightarrow> jsnum"
  sell :: "string \<Rightarrow> resource \<Rightarrow> jsnum \<Rightarrow> bool \<Rightarrow> jsnum"
  isBaseMineral :: "resource \<Rightarrow> bool"
  isIntermediateReactant :: "resource \<Rightarrow> bool"
  isHealBoost :: "resource \<Rightarrow> bool"
  isMineralOrCompound :: "resource \<Rightarrow> bool"
  isDepositResource :: "resource \<Rightarrow> bool"
  isCommodity :: "resource \<Rightarrow> bool"
  isBoost :: "resource \<Rightarrow> bool"

definition logMsg :: "log_level \<Rightarrow> tn \<Rightarrow> tn" where
  "logMsg l s = s\<lparr>console := console s @ [l]\<rparr>"

section \<open>Threshold table\<close>

text \<open>The engine's capacities; the source's comments give the derived 7000, 45000, 1000.\<close>

definition LAB_MINERAL_CAPACITY :: rat where
  "LAB_MINERAL_CAPACITY = 3000"

definition STORAGE_CAPACITY :: rat where
  "STORAGE_CAPACITY = 1000000"

definition TERMINAL_CAPACITY :: rat where
  "TERMINAL_CAPACITY = 300000"

definition FACTORY_CAPACITY :: rat where
  "FACTORY_CAPACITY = 50000"

definition DEFAULT_TARGET :: rat where
  "DEFAULT_TARGET = 2 * LAB_MINERAL_CAPACITY + 1000"

definition DEFAULT_SURPLUS :: rat where
  "DEFAULT_SURPLUS = 15 * LAB_MINERAL_CAPACITY"

definition DEFAULT_TOLERANCE :: rat where
  "DEFAULT_TOLERANCE = LAB_MINERAL_CAPACITY / 3"

definition THRESHOLDS_DEFAULT :: thresholds where
  "THRESHOLDS_DEFAULT =
     \<lparr>target = Fin DEFAULT_TARGET, surplus = Some (Fin DEFAULT_SURPLUS),
      tolerance = Fin DEFAULT_TOLERANCE\<rparr>"

definition THRESHOLDS_DONT_WANT :: thresholds where
  "THRESHOLDS_DONT_WANT = \<lparr>target = Fin 0, surplus = Some (Fin 0), tolerance = Fin 0\<rparr>"

definition THRESHOLDS_DONT_CARE :: thresholds where
  "THRESHOLDS_DONT_CARE = \<lparr>target = Fin 0, surplus = None, tolerance = Fin 0\<rparr>"

definition THRESHOLDS_POWER :: thresholds where
  "THRESHOLDS_POWER = \<lparr>target = Fin 2500, surplus = None, tolerance = Fin 2500\<rparr>"

definition THRESHOLDS_OPS :: thresholds where
  "THRESHOLDS_OPS = \<lparr>target = Fin 2500, surplus = None, tolerance = Fin 2500\<rparr>"

text \<open>
  \<open>getThresholds\<close>, in the order of its tests; the last line is the fall-through that the
  source reports as an error before returning the same value as for commodities.
\<close>

definition getThresholds :: "env \<Rightarrow> resource \<Rightarrow> thresholds" where
  "getThresholds e r =
     (if r = RESOURCE_POWER then THRESHOLDS_POWER
      else if r = RESOURCE_OPS then THRESHOLDS_OPS
      else if isBaseMineral e r then THRESHOLDS_DEFAULT
      else if isIntermediateReactant e r then THRESHOLDS_DEFAULT
      else if isHealBoost e r then
        \<lparr>target = Fin (3 / 2 * DEFAULT_TARGET), surplus = Some (Fin DEFAULT_SURPLUS),
         tolerance = Fin DEFAULT_TOLERANCE\<rparr>
      else if isMineralOrCompound e r then THRESHOLDS_DEFAULT
      else if isDepositResource e r then THRESHOLDS_DONT_CARE
      else if isCommodity e r then THRESHOLDS_DONT_CARE
      else THRESHOLDS_DONT_CARE)"

text \<open>
  \<open>ALL_THRESHOLDS\<close> tabulates \<open>getThresholds\<close> over every resource constant but energy, and
  it is only read at a \<open>ResourceConstant\<close> other than energy.
\<close>

definition ALL_THRESHOLDS :: "env \<Rightarrow> resource \<Rightarrow> thresholds" where
  "ALL_THRESHOLDS e r = getThresholds e r"

definition maxEnergySendAmount :: rat where
  "maxEnergySendAmount = 25000"

definition maxResourceSendAmount :: rat where
  "maxResourceSendAmount = 3000"

definition minColonySpace :: rat where
  "minColonySpace = 20000"

section \<open>Per-tick state\<close>

text \<open>
  \<open>refresh\<close> empties every per-tick field. \<open>stats\<close> is bound again to the same persistent
  memory object, whose contents the call does not change.
\<close>

definition refresh :: "tn \<Rightarrow> tn" where
  "refresh s = s\<lparr>
     colonyThresholds := Map.empty,
     energyThresholds := None,
     colonyStates := Map.empty,
     activeProviders := Map.empty,
     passiveProviders := Map.empty,
     equilibriumNodes := Map.empty,
     passiveRequestors := Map.empty,
     activeRequestors := Map.empty,
     netAssets := [],
     terminalOverload := Map.empty,
     notifications := []\<rparr>"

definition constructor :: "tn_stats \<Rightarrow> tn" where
  "constructor mem = refresh
     \<lparr>colonies = [], colonyThresholds = Map.empty, energyThresholds = None,
      colonyStates = Map.empty, activeProviders = Map.empty, passiveProviders = Map.empty,
      equilibriumNodes = Map.empty, passiveRequestors = Map.empty,
      activeRequestors = Map.empty, netAssets = [], notifications = [], stats = mem,
      terminalOverload = Map.empty, console = [], calls = []\<rparr>"

definition addColony :: "tn \<Rightarrow> colony \<Rightarrow> tn" where
  "addColony s c =
     (if \<not> ((case terminal c of None \<Rightarrow> False | Some t \<Rightarrow> my t) \<and> level c \<ge> 6)
      then logMsg LogError s
      else s\<lparr>colonies := colonies s @ [c]\<rparr>)"

definition hasOverride :: "tn \<Rightarrow> string \<Rightarrow> resource \<Rightarrow> bool" where
  "hasOverride s n r =
     (case colonyThresholds s n of None \<Rightarrow> False | Some m \<Rightarrow> m r \<noteq> None)"

definition nonExceptionalColonies :: "tn \<Rightarrow> colony list" where
  "nonExceptionalColonies s =
     filter (\<lambda>c. storage c \<noteq> None \<and> \<not> hasOverride s (name c) RESOURCE_ENERGY) (colonies s)"

definition avgEnergy :: "tn \<Rightarrow> jsnum" where
  "avgEnergy s =
     js_div (lodash_sum (map (\<lambda>c. amountOf (assets c) RESOURCE_ENERGY) (nonExceptionalColonies s)))
            (Fin (of_nat (length (nonExceptionalColonies s))))"

definition getEnergyThresholds :: "tn \<Rightarrow> thresholds \<times> tn" where
  "getEnergyThresholds s =
     (case energyThresholds s of
        Some t \<Rightarrow> (t, s)
      | None \<Rightarrow>
          (let t = \<lparr>target = avgEnergy s, surplus = Some (Fin 500000),
                    tolerance = js_div (avgEnergy s) (Fin 5)\<rparr>
           in (t, s\<lparr>energyThresholds := Some t\<rparr>)))"

definition thresholdsOf :: "env \<Rightarrow> tn \<Rightarrow> colony \<Rightarrow> resource \<Rightarrow> thresholds \<times> tn" where
  "thresholdsOf e s c r =
     (case (case colonyThresholds s (name c) of None \<Rightarrow> None | Some m \<Rightarrow> m r) of
        Some t \<Rightarrow> (t, s)
      | None \<Rightarrow>
          (if r = RESOURCE_ENERGY then getEnergyThresholds s
           else (ALL_THRESHOLDS e r, s)))"

text \<open>
  The value alone, for the tests that read a threshold inside a filter. The handlers below
  read thresholds this way: the one state change of a read is that the first read of the
  energy thresholds fills the cache, and no later read depends on whether it was filled
  (\<open>thr_after_read\<close>).
\<close>

definition thr :: "env \<Rightarrow> tn \<Rightarrow> colony \<Rightarrow> resource \<Rightarrow> thresholds" where
  "thr e s c r = fst (thresholdsOf e s c r)"

section \<open>State classifier\<close>

definition getRemainingSpace :: "colony \<Rightarrow> bool \<Rightarrow> jsnum" where
  "getRemainingSpace c includeFactoryCapacity =
     (let totalAssets0 = sumStore (assets c);
          totalAssets =
            (case storage c of
               None \<Rightarrow> totalAssets0
             | Some st \<Rightarrow>
                 (if js_gt (sumStore st) (Fin STORAGE_CAPACITY)
                  then js_sub totalAssets0 (js_sub (sumStore st) (Fin STORAGE_CAPACITY))
                  else totalAssets0));
          roomCapacity =
            (if terminal c \<noteq> None then TERMINAL_CAPACITY else 0) +
            (if storage c \<noteq> None then STORAGE_CAPACITY else 0) +
            (if factory c \<and> includeFactoryCapacity then FACTORY_CAPACITY else 0)
      in js_sub (Fin roomCapacity) totalAssets)"

text \<open>
  The classifier proper, on the thresholds, the amount and the remaining space. The test
  \<open>(surplus != undefined ? surplus : Infinity) >= amount\<close> holds without a surplus for every
  amount that is a number.
\<close>

definition classify :: "thresholds \<Rightarrow> jsnum \<Rightarrow> jsnum \<Rightarrow> TN_STATE" where
  "classify t amount space =
     (if (case surplus t of None \<Rightarrow> False | Some sp \<Rightarrow> js_gt amount sp)
         \<or> (js_gt amount (js_add (target t) (tolerance t)) \<and> js_lt space (Fin minColonySpace))
      then activeProvider
      else if (case surplus t of None \<Rightarrow> amount \<noteq> NaN | Some sp \<Rightarrow> js_ge sp amount)
              \<and> js_gt amount (js_add (target t) (tolerance t))
      then passiveProvider
      else if js_ge (js_add (target t) (tolerance t)) amount
              \<and> js_ge amount (js_max (js_sub (target t) (tolerance t)) (Fin 0))
      then equilibrium
      else if js_lt amount (js_max (js_sub (target t) (tolerance t)) (Fin 0))
      then passiveRequestor
      else error)"

definition getColonyState :: "env \<Rightarrow> tn \<Rightarrow> colony \<Rightarrow> resource \<Rightarrow> TN_STATE \<times> tn" where
  "getColonyState e s c r =
     (let (t, s1) = thresholdsOf e s c r;
          st = classify t (amountOf (assets c) r) (getRemainingSpace c False)
      in (st, if st = error then logMsg LogError s1 else s1))"

section \<open>External overrides\<close>


definition exportResource :: "tn \<Rightarrow> colony \<Rightarrow> resource \<Rightarrow> thresholds option \<Rightarrow> tn" where
  "exportResource s provider r th =
     (let s1 = (if hasOverride s (name provider) r then logMsg LogWarning s else s);
          inner = (case colonyThresholds s1 (name provider) of
                     None \<Rightarrow> Map.empty | Some m \<Rightarrow> m);
          t = (case th of None \<Rightarrow> THRESHOLDS_DONT_WANT | Some x \<Rightarrow> x)
      in s1\<lparr>colonyThresholds := (colonyThresholds s1)(name provider \<mapsto> inner(r \<mapsto> t))\<rparr>)"

text \<open>
  Modelled from the spec: the helper \<open>mergeSum\<close> of \<open>utilities/utils\<close> is not among the
  sources. The spec has \<open>assets\<close> hold the network-wide sum of the colonies' assets: every
  key of every object is added up, a value that is missing or not a number counting as 0,
  and the keys keep the order in which they first occur.
\<close>

fun addTo :: "store \<Rightarrow> resource \<Rightarrow> jsnum \<Rightarrow> store" where
  "addTo [] k v = [(k, js_add (Fin 0) v)]"
| "addTo ((k', x) # rest) k v =
     (if k' = k then (k', js_add (js_or0 x) v) # rest else (k', x) # addTo rest k v)"

definition mergeSum :: "store list \<Rightarrow> store" where
  "mergeSum objects =
     foldl (\<lambda>ret object. foldl (\<lambda>ret' kv. addTo ret' (fst kv) (js_or0 (snd kv))) ret object)
           [] objects"

text \<open>\<open>getAssets\<close> sums the colonies' assets once, while the stored object is empty.\<close>

definition getAssets :: "tn \<Rightarrow> store \<times> tn" where
  "getAssets s =
     (if netAssets s = []
      then (mergeSum (map assets (colonies s)),
            s\<lparr>netAssets := mergeSum (map assets (colonies s))\<rparr>)
      else (netAssets s, s))"

definition init :: "tn \<Rightarrow> tn" where
  "init s = (snd (getAssets s))\<lparr>
     netAssets := fst (getAssets s),
     colonyStates :=
       foldl (\<lambda>m c. m(name c \<mapsto> Map.empty)) (colonyStates (snd (getAssets s)))
             (colonies (snd (getAssets s)))\<rparr>"

section \<open>Transfer executor\<close>

definition notify :: "notification \<Rightarrow> tn \<Rightarrow> tn" where
  "notify msg s = s\<lparr>notifications := notifications s @ [msg]\<rparr>"

text \<open>A tally that is missing, zero or not a number is set to 0 before the addition.\<close>

definition tally :: "(string \<rightharpoonup> jsnum) \<Rightarrow> string \<Rightarrow> jsnum" where
  "tally m k = (case m k of None \<Rightarrow> Fin 0 | Some v \<Rightarrow> js_or0 v)"

definition subTable :: "('k \<rightharpoonup> ('j \<rightharpoonup> 'v)) \<Rightarrow> 'k \<Rightarrow> ('j \<rightharpoonup> 'v)" where
  "subTable m k = (case m k of None \<Rightarrow> Map.empty | Some t \<Rightarrow> t)"

definition logTransferCosts :: "env \<Rightarrow> jsnum \<Rightarrow> string \<Rightarrow> string \<Rightarrow> tn \<Rightarrow> tn" where
  "logTransferCosts e amount origin destination s =
     (let byDest = subTable (costs (stats s)) origin;
          transactionCost = calcTransactionCost e amount origin destination;
          byDest' = byDest(destination \<mapsto> js_add (tally byDest destination) transactionCost)
      in s\<lparr>stats := (stats s)\<lparr>costs := (costs (stats s))(origin \<mapsto> byDest')\<rparr>\<rparr>)"

definition logTransfer :: "env \<Rightarrow> resource \<Rightarrow> jsnum \<Rightarrow> string \<Rightarrow> string \<Rightarrow> tn \<Rightarrow> tn" where
  "logTransfer e resourceType amount origin destination s =
     (let byOrigin = subTable (transfers (stats s)) resourceType;
          byDest = subTable byOrigin origin;
          byDest' = byDest(destination \<mapsto> js_add (tally byDest destination) amount);
          s1 = s\<lparr>stats := (stats s)\<lparr>transfers :=
                 (transfers (stats s))(resourceType \<mapsto> byOrigin(origin \<mapsto> byDest'))\<rparr>\<rparr>
      in logTransferCosts e amount origin destination s1)"

definition markOverload :: "string \<Rightarrow> tn \<Rightarrow> tn" where
  "markOverload n s = s\<lparr>terminalOverload := (terminalOverload s)(n \<mapsto> True)\<rparr>"

definition transfer ::
  "env \<Rightarrow> tn \<Rightarrow> terminal \<Rightarrow> terminal \<Rightarrow> resource \<Rightarrow> jsnum \<Rightarrow> string
     \<Rightarrow> ScreepsReturnCode \<times> tn" where
  "transfer e s sender receiver resourceType amount description =
     (let response = send e (roomName sender) resourceType amount (roomName receiver);
          s0 = s\<lparr>calls := calls s @
                 [Send (roomName sender) resourceType amount (roomName receiver) response]\<rparr>
      in if response = OK then
           (response,
            logTransfer e resourceType amount (roomName sender) (roomName receiver)
              (notify (TransferNote (roomName sender) amount resourceType (roomName receiver)
                         description) s0))
         else
           (response,
            (let s1 = logMsg LogWarning s0
             in if response = ERR_NOT_ENOUGH_RESOURCES \<or> response = ERR_TIRED
                then markOverload (roomName sender) s1 else s1)))"

section \<open>Partner selection\<close>

text \<open>
  Modelled from the spec: the helpers \<open>maxBy\<close> and \<open>minBy\<close> of \<open>utilities/utils\<close> are not
  among the sources. The spec has the best sender maximise its score and the best receiver
  minimise the transaction cost. Here the first element with the greatest (least) value is
  returned, and nothing when the list is empty or no value is a number.
\<close>

definition maxBy :: "'a list \<Rightarrow> ('a \<Rightarrow> jsnum) \<Rightarrow> 'a option" where
  "maxBy objects iteratee =
     foldl (\<lambda>best x. case best of
                       None \<Rightarrow> (if iteratee x = NaN then None else Some x)
                     | Some b \<Rightarrow> (if js_gt (iteratee x) (iteratee b) then Some x else Some b))
           None objects"

definition minBy :: "'a list \<Rightarrow> ('a \<Rightarrow> jsnum) \<Rightarrow> 'a option" where
  "minBy objects iteratee =
     foldl (\<lambda>best x. case best of
                       None \<Rightarrow> (if iteratee x = NaN then None else Some x)
                     | Some b \<Rightarrow> (if js_lt (iteratee x) (iteratee b) then Some x else Some b))
           None objects"

definition senderScore :: "env \<Rightarrow> tn \<Rightarrow> jsnum \<Rightarrow> colony \<Rightarrow> colony \<Rightarrow> jsnum" where
  "senderScore e s amount c partner =
     (let sendCost = calcTransactionCost e amount (name partner) (name c);
          avgCd = js_or0 (case avgCooldown (stats s) (name partner) of
                            None \<Rightarrow> NaN | Some v \<Rightarrow> v)
      in js_mul (js_mul (Fin (- 1)) sendCost)
                (js_add (js_add (Fin 2) (js_div sendCost (Fin 2000))) avgCd))"

definition getBestSenderColony ::
  "env \<Rightarrow> tn \<Rightarrow> resource \<Rightarrow> jsnum \<Rightarrow> colony \<Rightarrow> colony list \<Rightarrow> colony option \<times> tn" where
  "getBestSenderColony e s r amount c partners =
     (maxBy partners (senderScore e s amount c),
      if partners = [] then logMsg LogError s else s)"

section \<open>Request handler\<close>

record RequestOpts =
  allowDivvying :: bool
  sendTargetPlusTolerance :: bool
  allowMarketBuy :: bool
  receiveOnlyOncePerTick :: bool

record ProvideOpts =
  allowPushToOtherRooms :: bool
  allowMarketSell :: bool

definition maxAmount :: "resource \<Rightarrow> rat" where
  "maxAmount r = (if r = RESOURCE_ENERGY then maxEnergySendAmount else maxResourceSendAmount)"

definition strictSenders ::
  "env \<Rightarrow> tn \<Rightarrow> resource \<Rightarrow> jsnum \<Rightarrow> colony list \<Rightarrow> colony list" where
  "strictSenders e s r requestAmount partners =
     filter (\<lambda>partner. js_ge (js_sub (amountOf (assets partner) r) requestAmount)
                             (target (thr e s partner r))) partners"

definition relaxedSenders ::
  "env \<Rightarrow> tn \<Rightarrow> colony \<Rightarrow> resource \<Rightarrow> jsnum \<Rightarrow> colony list \<Rightarrow> colony list" where
  "relaxedSenders e s c r requestAmount partners =
     filter (\<lambda>partner. js_ge (js_sub (amountOf (assets partner) r) requestAmount)
                             (js_sub (target (thr e s partner r)) (tolerance (thr e s c r))))
            partners"

definition validSenders ::
  "env \<Rightarrow> tn \<Rightarrow> colony \<Rightarrow> resource \<Rightarrow> jsnum \<Rightarrow> colony list \<Rightarrow> colony list" where
  "validSenders e s c r requestAmount partners =
     (let validPartners = strictSenders e s r requestAmount partners
      in if validPartners = [] then relaxedSenders e s c r requestAmount partners
         else validPartners)"

text \<open>
  The body run for the first partner set that has valid partners. The source computes
  \<open>sendAmount\<close> and then passes \<open>requestAmount\<close> to \<open>transfer\<close>. A missing partner or
  terminal raises where the source dereferences it.
\<close>

definition requestFromBest ::
  "env \<Rightarrow> tn \<Rightarrow> colony \<Rightarrow> resource \<Rightarrow> jsnum \<Rightarrow> colony list \<Rightarrow> (js_error + bool) \<times> tn" where
  "requestFromBest e s c r requestAmount validPartners =
     (let (best, s1) = getBestSenderColony e s r requestAmount c validPartners
      in case best of
           None \<Rightarrow> (Inl TypeError, s1)
         | Some bestPartner \<Rightarrow>
             (case terminal bestPartner of
                None \<Rightarrow> (Inl TypeError, s1)
              | Some sendTerm \<Rightarrow>
                  (let sendAmount = js_min3 requestAmount (amountOf (termStore sendTerm) r)
                                            (Fin (maxAmount r))
                   in if isReady sendTerm then
                        (case terminal c of
                           None \<Rightarrow> (Inl TypeError, s1)
                         | Some recvTerm \<Rightarrow>
                             (Inr True,
                              snd (transfer e s1 sendTerm recvTerm r requestAmount
                                     (''request for '' @ r))))
                      else (Inr True, markOverload (roomName sendTerm) s1))))"

fun singlePartner ::
  "env \<Rightarrow> tn \<Rightarrow> colony \<Rightarrow> resource \<Rightarrow> jsnum \<Rightarrow> colony list list
     \<Rightarrow> ((js_error + bool) \<times> tn) option" where
  "singlePartner e s c r requestAmount [] = None"
| "singlePartner e s c r requestAmount (partners # rest) =
     (let validPartners = validSenders e s c r requestAmount partners
      in if validPartners \<noteq> [] then Some (requestFromBest e s c r requestAmount validPartners)
         else singlePartner e s c r requestAmount rest)"

text \<open>
  The divvy fallback. The partners that pass the filter have an excess that is a number
  (the comparison fails otherwise), so the sort key is read off with \<open>finVal\<close>.
  \<open>sortBy\<close> is a stable sort in ascending order of the key.
\<close>

fun finVal :: "jsnum \<Rightarrow> rat" where
  "finVal (Fin a) = a"
| "finVal NaN = 0"

definition MAX_SEND_REQUESTS :: nat where
  "MAX_SEND_REQUESTS = 3"

definition divvyPartners :: "env \<Rightarrow> tn \<Rightarrow> resource \<Rightarrow> colony list list \<Rightarrow> colony list" where
  "divvyPartners e s r partnerSets =
     take MAX_SEND_REQUESTS
       (sort_key (\<lambda>partner. finVal (js_sub (amountOf (assets partner) r)
                                            (target (thr e s partner r))))
          (filter (\<lambda>partner. js_gt (amountOf (assets partner) r) (target (thr e s partner r)))
             (concat partnerSets)))"

text \<open>
  The loop over the chosen partners. The result \<open>Inr True\<close> is a \<open>return true\<close> (inside the
  loop, or after it because something was sent); \<open>Inr False\<close> falls through to the market.
\<close>

fun divvyLoop ::
  "env \<Rightarrow> tn \<Rightarrow> colony \<Rightarrow> resource \<Rightarrow> jsnum \<Rightarrow> bool \<Rightarrow> colony list
     \<Rightarrow> (js_error + bool) \<times> tn" where
  "divvyLoop e s c r remainingAmount sentSome [] = (Inr sentSome, s)"
| "divvyLoop e s c r remainingAmount sentSome (partner # rest) =
     (case terminal partner of
        None \<Rightarrow> (Inl TypeError, s)
      | Some sendTerm \<Rightarrow>
          (let amountPartnerCanSend =
                 js_sub (amountOf (termStore sendTerm) r) (target (thr e s partner r));
               sendAmount = js_min3 amountPartnerCanSend remainingAmount (Fin (maxAmount r))
           in if isReady sendTerm then
                (case terminal c of
                   None \<Rightarrow> (Inl TypeError, s)
                 | Some recvTerm \<Rightarrow>
                     (let res = transfer e s sendTerm recvTerm r sendAmount
                                  (''request for '' @ r)
                      in if fst res = OK then
                           (if js_le (js_sub remainingAmount sendAmount) (Fin 0)
                            then (Inr True, snd res)
                            else divvyLoop e (snd res) c r
                                   (js_sub remainingAmount sendAmount) True rest)
                         else
                           (if js_le remainingAmount (Fin 0)
                            then (Inr True, markOverload (roomName sendTerm) (snd res))
                            else divvyLoop e (markOverload (roomName sendTerm) (snd res)) c r
                                   remainingAmount sentSome rest)))
              else
                (if js_le remainingAmount (Fin 0)
                 then (Inr True, markOverload (roomName sendTerm) s)
                 else divvyLoop e (markOverload (roomName sendTerm) s) c r
                        remainingAmount sentSome rest)))"

definition marketBuy ::
  "env \<Rightarrow> tn \<Rightarrow> colony \<Rightarrow> resource \<Rightarrow> jsnum \<Rightarrow> RequestOpts \<Rightarrow> (js_error + bool) \<times> tn" where
  "marketBuy e s c r requestAmount opts =
     (if allowMarketBuy opts then
        (if r = RESOURCE_ENERGY \<and> js_lt (credits e) (canBuyEnergyAbove e) then (Inr False, s)
         else if isBoost e r \<and> js_lt (credits e) (canBuyBoostsAbove e) then (Inr False, s)
         else
           (let ret = buy e (name c) r requestAmount;
                s1 = s\<lparr>calls := calls s @ [Buy (name c) r requestAmount]\<rparr>
            in (Inr (js_ge ret (Fin 0)), s1)))
      else (Inr False, s))"

definition handleRequestInstance ::
  "env \<Rightarrow> tn \<Rightarrow> colony \<Rightarrow> resource \<Rightarrow> jsnum \<Rightarrow> colony list list \<Rightarrow> RequestOpts
     \<Rightarrow> (js_error + bool) \<times> tn" where
  "handleRequestInstance e s c r requestAmount partnerSets opts =
     (case singlePartner e s c r requestAmount partnerSets of
        Some res \<Rightarrow> res
      | None \<Rightarrow>
          (if allowDivvying opts then
             (case divvyLoop e s c r requestAmount False (divvyPartners e s r partnerSets) of
                (Inl err, s1) \<Rightarrow> (Inl err, s1)
              | (Inr True, s1) \<Rightarrow> (Inr True, s1)
              | (Inr False, s1) \<Rightarrow> marketBuy e s1 c r requestAmount opts)
           else marketBuy e s c r requestAmount opts))"

section \<open>Provide handler\<close>

definition hasSpaceFor :: "colony \<Rightarrow> jsnum \<Rightarrow> bool" where
  "hasSpaceFor partner sendAmount =
     js_ge (js_sub (getRemainingSpace partner False) sendAmount) (Fin minColonySpace)"

definition validReceivers ::
  "env \<Rightarrow> tn \<Rightarrow> colony \<Rightarrow> resource \<Rightarrow> jsnum \<Rightarrow> colony list \<Rightarrow> colony list" where
  "validReceivers e s c r sendAmount partners =
     (let v1 = filter (\<lambda>partner.
                 js_le (js_add (amountOf (assets partner) r) sendAmount)
                       (target (thr e s partner r))
                 \<and> hasSpaceFor partner sendAmount) partners;
          v2 = (if v1 = [] then
                  filter (\<lambda>partner.
                    js_le (js_add (amountOf (assets partner) r) sendAmount)
                          (js_add (target (thr e s partner r)) (tolerance (thr e s c r)))
                    \<and> hasSpaceFor partner sendAmount) partners
                else v1)
      in if v2 = [] then
           filter (\<lambda>partner.
             if js_lt (js_sub (getRemainingSpace partner False) sendAmount) (Fin minColonySpace)
             then False
             else (case surplus (thr e s partner r) of
                     Some sp \<Rightarrow> js_lt (js_add (amountOf (assets partner) r) sendAmount) sp
                   | None \<Rightarrow> js_le (js_add (amountOf (assets partner) r) sendAmount)
                                   (js_add (target (thr e s partner r))
                                           (tolerance (thr e s partner r))))) partners
         else v2)"

definition provideToBest ::
  "env \<Rightarrow> tn \<Rightarrow> colony \<Rightarrow> resource \<Rightarrow> jsnum \<Rightarrow> colony list \<Rightarrow> (js_error + bool) \<times> tn" where
  "provideToBest e s c r sendAmount validPartners =
     (case minBy validPartners (\<lambda>partner. calcTransactionCost e sendAmount (name c) (name partner)) of
        None \<Rightarrow> (Inl TypeError, s)
      | Some bestPartner \<Rightarrow>
          (case terminal c of
             None \<Rightarrow> (Inl TypeError, s)
           | Some sendTerm \<Rightarrow>
               (let sendAmount' = js_min3 sendAmount (amountOf (termStore sendTerm) r)
                                          (Fin (maxAmount r))
                in if isReady sendTerm then
                     (case terminal bestPartner of
                        None \<Rightarrow> (Inl TypeError, s)
                      | Some recvTerm \<Rightarrow>
                          (Inr True,
                           snd (transfer e s sendTerm recvTerm r sendAmount'
                                  (''provide instance for '' @ r))))
                   else (Inr True, markOverload (roomName sendTerm) s))))"

fun pushToPartners ::
  "env \<Rightarrow> tn \<Rightarrow> colony \<Rightarrow> resource \<Rightarrow> jsnum \<Rightarrow> colony list list
     \<Rightarrow> ((js_error + bool) \<times> tn) option" where
  "pushToPartners e s c r sendAmount [] = None"
| "pushToPartners e s c r sendAmount (partners # rest) =
     (let validPartners = validReceivers e s c r sendAmount partners
      in if validPartners \<noteq> [] then Some (provideToBest e s c r sendAmount validPartners)
         else pushToPartners e s c r sendAmount rest)"

definition marketSell ::
  "env \<Rightarrow> tn \<Rightarrow> colony \<Rightarrow> resource \<Rightarrow> jsnum \<Rightarrow> ProvideOpts \<Rightarrow> (js_error + bool) \<times> tn" where
  "marketSell e s c r sendAmount opts =
     (if allowMarketSell opts then
        (let preferDirect =
               ((r = RESOURCE_ENERGY \<or> isBaseMineral e r)
                \<and> js_lt (getRemainingSpace c False) (Fin minColonySpace));
             ret = sell e (name c) r sendAmount preferDirect;
             s1 = s\<lparr>calls := calls s @ [Sell (name c) r sendAmount preferDirect]\<rparr>
         in (Inr (js_ge ret (Fin 0)), s1))
      else (Inr False, s))"

definition handleProvideInstance ::
  "env \<Rightarrow> tn \<Rightarrow> colony \<Rightarrow> resource \<Rightarrow> jsnum \<Rightarrow> colony list list \<Rightarrow> ProvideOpts
     \<Rightarrow> (js_error + bool) \<times> tn" where
  "handleProvideInstance e s c r sendAmount partnerSets opts =
     (case (if allowPushToOtherRooms opts then pushToPartners e s c r sendAmount partnerSets
            else None) of
        Some res \<Rightarrow> res
      | None \<Rightarrow> marketSell e s c r sendAmount opts)"

section \<open>Reading the results\<close>

text \<open>
  A ledger entry as stored (nothing, if one of the nested objects is missing), and as the
  logging code reads it before adding to it: a tally that is missing, zero or not a number
  counts as 0.
\<close>

definition ledgerEntry :: "tn \<Rightarrow> resource \<Rightarrow> string \<Rightarrow> string \<Rightarrow> jsnum option" where
  "ledgerEntry s r origin destination =
     subTable (subTable (transfers (stats s)) r) origin destination"

definition costEntry :: "tn \<Rightarrow> string \<Rightarrow> string \<Rightarrow> jsnum option" where
  "costEntry s origin destination = subTable (costs (stats s)) origin destination"

definition ledgerAt :: "tn \<Rightarrow> resource \<Rightarrow> string \<Rightarrow> string \<Rightarrow> jsnum" where
  "ledgerAt s r origin destination =
     tally (subTable (subTable (transfers (stats s)) r) origin) destination"

definition costAt :: "tn \<Rightarrow> string \<Rightarrow> string \<Rightarrow> jsnum" where
  "costAt s origin destination = tally (subTable (costs (stats s)) origin) destination"

fun isOkSend :: "call \<Rightarrow> bool" where
  "isOkSend (Send _ _ _ _ response) = (response = OK)"
| "isOkSend _ = False"

fun isBuy :: "call \<Rightarrow> bool" where
  "isBuy (Buy _ _ _) = True"
| "isBuy _ = False"


text \<open>The invariant the specification gives for a thresholds triple.\<close>

definition thresholdsInvariant :: "thresholds \<Rightarrow> bool" where
  "thresholdsInvariant t =
     (js_le (tolerance t) (target t)
      \<and> (case surplus t of
           None \<Rightarrow> True
         | Some sp \<Rightarrow> js_ge sp (js_add (target t) (tolerance t))))"

section \<open>Example networks\<close>

definition exampleEnv :: env where
  "exampleEnv =
     \<lparr>send = (\<lambda>sender r amount destination. OK),
      calcTransactionCost = (\<lambda>amount origin destination. Fin 100),
      credits = Fin 0,
      canBuyEnergyAbove = Fin 10000,
      canBuyBoostsAbove = Fin 10000,
      buy = (\<lambda>c r amount. Fin 0),
      sell = (\<lambda>c r amount direct. Fin 0),
      isBaseMineral = (\<lambda>r. r \<in> set [''H'', ''O'', ''U'', ''L'', ''K'', ''Z'', ''X'']),
      isIntermediateReactant = (\<lambda>r. False),
      isHealBoost = (\<lambda>r. False),
      isMineralOrCompound = (\<lambda>r. False),
      isDepositResource = (\<lambda>r. False),
      isCommodity = (\<lambda>r. False),
      isBoost = (\<lambda>r. False)\<rparr>"

definition emptyStats :: tn_stats where
  "emptyStats = \<lparr>transfers = Map.empty, costs = Map.empty, avgCooldown = Map.empty,
                 overload = Map.empty\<rparr>"

text \<open>
  A colony of level 8 with a ready terminal that is its own: name, assets, terminal store,
  and whether it has a storage.
\<close>

definition mkTerminal :: "string \<Rightarrow> store \<Rightarrow> terminal" where
  "mkTerminal n ts =
     \<lparr>roomName = n, my = True, isReady = True, hasReceived = False, cooldown = Fin 0,
      termStore = ts\<rparr>"

definition mkColony :: "string \<Rightarrow> store \<Rightarrow> store \<Rightarrow> bool \<Rightarrow> colony" where
  "mkColony n as ts withStorage =
     \<lparr>name = n, level = 8, assets = as, terminal = Some (mkTerminal n ts),
      storage = (if withStorage then Some [] else None), factory = False\<rparr>"

definition network :: "colony list \<Rightarrow> tn" where
  "network cs = init (foldl addColony (constructor emptyStats) cs)"

text \<open>Three colonies with a storage and 100k, 200k and 300k energy, one without storage.\<close>

definition energyColonies :: "colony list" where
  "energyColonies =
     [mkColony ''W1N1'' [(''energy'', Fin 100000)] [(''energy'', Fin 50000)] True,
      mkColony ''W2N2'' [(''energy'', Fin 200000)] [(''energy'', Fin 50000)] True,
      mkColony ''W3N3'' [(''energy'', Fin 300000)] [(''energy'', Fin 50000)] True,
      mkColony ''W4N4'' [(''energy'', Fin 150000)] [(''energy'', Fin 50000)] False]"

text \<open>One colony with a storage and 500k energy.\<close>

definition richColony :: colony where
  "richColony = mkColony ''W5N5'' [(''energy'', Fin 500000)] [(''energy'', Fin 100000)] True"

text \<open>
  A requestor short of the mineral \<open>U\<close> and partners that hold it; \<open>keeper\<close> has most of its
  \<open>U\<close> outside the terminal.
\<close>

definition requestor :: colony where
  "requestor = mkColony ''W1N1'' [(''U'', Fin 2000)] [(''U'', Fin 2000)] True"

definition donor :: colony where
  "donor = mkColony ''W2N2'' [(''U'', Fin 20000)] [(''U'', Fin 10000)] True"

definition keeper :: colony where
  "keeper = mkColony ''W3N3'' [(''U'', Fin 10000)] [(''U'', Fin 1000)] True"

definition partner1 :: colony where
  "partner1 = mkColony ''W6N1'' [(''U'', Fin 8000)] [(''U'', Fin 8000)] True"

definition partner2 :: colony where
  "partner2 = mkColony ''W6N2'' [(''U'', Fin 9000)] [(''U'', Fin 9000)] True"

definition partner3 :: colony where
  "partner3 = mkColony ''W6N3'' [(''U'', Fin 10000)] [(''U'', Fin 10000)] True"

definition partner4 :: colony where
  "partner4 = mkColony ''W6N4'' [(''U'', Fin 11000)] [(''U'', Fin 11000)] True"


definition divvyOpts :: RequestOpts where
  "divvyOpts = \<lparr>allowDivvying = True, sendTargetPlusTolerance = False,
                 allowMarketBuy = True, receiveOnlyOncePerTick = False\<rparr>"

section \<open>What a run of the divvy loop leaves behind\<close>

text \<open>
  The relation between the state before the loop and its result that the loop keeps:
  the calls are extended by sends only; the loop falls through only if nothing was sent;
  it raises only at a missing terminal; with no receiving terminal it calls nothing.
\<close>

definition divvyPost :: "tn \<Rightarrow> colony \<Rightarrow> bool \<Rightarrow> colony list \<Rightarrow> (js_error + bool) \<times> tn \<Rightarrow> bool" where
  "divvyPost s c sentSome ps res =
     (\<exists>new. calls (snd res) = calls s @ new
        \<and> (\<forall>x \<in> set new. \<not> isBuy x)
        \<and> (fst res = Inr False \<longrightarrow> \<not> sentSome \<and> (\<forall>x \<in> set new. \<not> isOkSend x))
        \<and> (\<forall>err. fst res = Inl err \<longrightarrow> (\<exists>p \<in> set ps. terminal p = None) \<or> terminal c = None)
        \<and> (terminal c = None \<longrightarrow> new = []))"

section \<open>Basic facts\<close>

lemma js_cmp_simps [simp]:
  "js_gt (Fin a) (Fin b) = (b < a)"
  "js_ge (Fin a) (Fin b) = (b \<le> a)"
  "js_gt NaN x = False" "js_gt x NaN = False"
  "js_ge NaN x = False" "js_ge x NaN = False"
  by (cases x; simp add: js_gt_def js_ge_def)+

lemmas example_defs = network_def constructor_def refresh_def addColony_def init_def
  getAssets_def mergeSum_def
  mkColony_def mkTerminal_def energyColonies_def emptyStats_def exampleEnv_def richColony_def
  requestor_def donor_def keeper_def partner1_def partner2_def partner3_def partner4_def
  divvyOpts_def

lemmas resource_defs = RESOURCE_ENERGY_def RESOURCE_POWER_def RESOURCE_OPS_def

lemmas threshold_defs = ALL_THRESHOLDS_def getThresholds_def THRESHOLDS_DEFAULT_def
  THRESHOLDS_DONT_CARE_def THRESHOLDS_DONT_WANT_def THRESHOLDS_POWER_def THRESHOLDS_OPS_def
  DEFAULT_TARGET_def DEFAULT_SURPLUS_def DEFAULT_TOLERANCE_def LAB_MINERAL_CAPACITY_def

lemma lodash_sum_Fin_aux:
  "foldl (\<lambda>acc v. js_add acc (js_or0 v)) (Fin a) (map Fin es) = Fin (a + sum_list es)"
  by (induction es arbitrary: a) (simp_all add: add.assoc)

lemma lodash_sum_Fin: "lodash_sum (map Fin es) = Fin (sum_list es)"
  by (simp add: lodash_sum_def lodash_sum_Fin_aux)

lemma thr_override:
  "colonyThresholds s (name c) = Some m \<Longrightarrow> m r = Some t \<Longrightarrow> thr e s c r = t"
  by (simp add: thr_def thresholdsOf_def)

lemma thr_static:
  "\<not> hasOverride s (name c) r \<Longrightarrow> r \<noteq> RESOURCE_ENERGY \<Longrightarrow> thr e s c r = getThresholds e r"
  by (auto simp: thr_def thresholdsOf_def hasOverride_def ALL_THRESHOLDS_def
           split: option.splits)

lemma thr_energy_fresh:
  "\<not> hasOverride s (name c) RESOURCE_ENERGY \<Longrightarrow> energyThresholds s = None \<Longrightarrow>
   thr e s c RESOURCE_ENERGY =
     \<lparr>target = avgEnergy s, surplus = Some (Fin 500000),
      tolerance = js_div (avgEnergy s) (Fin 5)\<rparr>"
  by (auto simp: thr_def thresholdsOf_def hasOverride_def getEnergyThresholds_def Let_def
           split: option.splits)

text \<open>Reading a threshold changes no threshold that is read afterwards.\<close>

lemma thr_after_read:
  "thr e (snd (thresholdsOf e s c r)) c' r' = thr e s c' r'"
  by (auto simp: thr_def thresholdsOf_def getEnergyThresholds_def Let_def
           split: option.splits)

lemma avgEnergy_mean:
  assumes "map (\<lambda>c. amountOf (assets c) RESOURCE_ENERGY) (nonExceptionalColonies s) = map Fin es"
    and "es \<noteq> []"
  shows "avgEnergy s = Fin (sum_list es / of_nat (length es))"
proof -
  have "length (nonExceptionalColonies s) = length es"
    using assms(1) by (metis length_map)
  with assms show ?thesis
    by (simp add: avgEnergy_def lodash_sum_Fin)
qed

lemma energyColonies_nonExceptional:
  "map (\<lambda>c. amountOf (assets c) RESOURCE_ENERGY) (nonExceptionalColonies (network energyColonies))
     = map Fin [100000, 200000, 300000]"
  by (simp add: example_defs nonExceptionalColonies_def hasOverride_def amountOf_def
        RESOURCE_ENERGY_def)

lemma energyColonies_avg: "avgEnergy (network energyColonies) = Fin 200000"
  using avgEnergy_mean [OF energyColonies_nonExceptional] by simp

lemma energyColonies_fresh:
  "energyThresholds (network energyColonies) = None"
  "\<not> hasOverride (network energyColonies) n RESOURCE_ENERGY"
  by (simp_all add: example_defs hasOverride_def)

section \<open>The tiers of the classifier\<close>

text \<open>
  C3. With thresholds (target, surplus, tolerance) and amount the colony's assets of the
  resource, \<open>getColonyState\<close> returns activeProvider if the amount is above a surplus that
  is set, or above target + tolerance with less than \<open>minColonySpace\<close> remaining; else
  passiveProvider if the amount is above target + tolerance; else equilibrium if it lies
  between max (target - tolerance, 0) and target + tolerance; else passiveRequestor if it is
  below max (target - tolerance, 0). It returns activeRequestor for no input at all, and on
  numbers never the error state.
\<close>

theorem getColonyState_tiers:
  "fst (getColonyState e s c r) \<noteq> activeRequestor \<and>
   (thr e s c r = \<lparr>target = Fin tg, surplus = map_option Fin sp, tolerance = Fin tol\<rparr> \<longrightarrow>
    amountOf (assets c) r = Fin a \<longrightarrow>
    fst (getColonyState e s c r) =
      (if (\<exists>x. sp = Some x \<and> a > x)
          \<or> (a > tg + tol \<and> js_lt (getRemainingSpace c False) (Fin minColonySpace))
       then activeProvider
       else if a > tg + tol then passiveProvider
       else if max (tg - tol) 0 \<le> a \<and> a \<le> tg + tol then equilibrium
       else if a < max (tg - tol) 0 then passiveRequestor
       else error) \<and>
    fst (getColonyState e s c r) \<noteq> error)"
  by (cases sp) (auto simp: getColonyState_def thr_def classify_def Let_def split: prod.splits)

theorem getColonyState_tiers_witness:
  "fst (getColonyState exampleEnv (network energyColonies) (energyColonies ! 3) RESOURCE_ENERGY)
     = passiveRequestor
   \<and> fst (getColonyState exampleEnv (network energyColonies) (energyColonies ! 1) RESOURCE_ENERGY)
     = equilibrium"
proof -
  have t: "thr exampleEnv (network energyColonies) c RESOURCE_ENERGY =
    \<lparr>target = Fin 200000, surplus = map_option Fin (Some 500000), tolerance = Fin 40000\<rparr>" for c
    by (simp add: thr_energy_fresh [OF energyColonies_fresh(2) energyColonies_fresh(1)]
          energyColonies_avg)
  have a3: "amountOf (assets (energyColonies ! 3)) RESOURCE_ENERGY = Fin 150000"
    by (simp add: example_defs amountOf_def RESOURCE_ENERGY_def)
  have a1: "amountOf (assets (energyColonies ! 1)) RESOURCE_ENERGY = Fin 200000"
    by (simp add: example_defs amountOf_def RESOURCE_ENERGY_def)
  show ?thesis
    using getColonyState_tiers [of exampleEnv "network energyColonies" "energyColonies ! 3"
        RESOURCE_ENERGY 200000 "Some 500000" 40000 150000]
      getColonyState_tiers [of exampleEnv "network energyColonies" "energyColonies ! 1"
        RESOURCE_ENERGY 200000 "Some 500000" 40000 200000]
      t a3 a1
    by simp
qed

section \<open>The cached energy thresholds\<close>

text \<open>
  C6. The energy thresholds are computed when the cache is empty and stored; while the
  cache is filled every call returns the stored triple and changes nothing, whatever has
  happened to the colonies and the overrides since; \<open>refresh\<close> empties the cache. The
  computed target is the mean of the energy assets over exactly the registered colonies
  that have a storage and no energy override, the surplus is 500000 and the tolerance is
  a fifth of the target.
\<close>

theorem energyThresholds_once_per_tick:
  "(energyThresholds s = None \<longrightarrow>
      fst (getEnergyThresholds s) =
        \<lparr>target = avgEnergy s, surplus = Some (Fin 500000),
         tolerance = js_div (avgEnergy s) (Fin 5)\<rparr>
      \<and> energyThresholds (snd (getEnergyThresholds s)) = Some (fst (getEnergyThresholds s)))
   \<and> (\<forall>t. energyThresholds s = Some t \<longrightarrow> getEnergyThresholds s = (t, s))
   \<and> (\<forall>s'. energyThresholds s' = energyThresholds (snd (getEnergyThresholds s)) \<longrightarrow>
         fst (getEnergyThresholds s') = fst (getEnergyThresholds s))
   \<and> energyThresholds (refresh s0) = None
   \<and> set (nonExceptionalColonies s) =
       {c \<in> set (colonies s). storage c \<noteq> None \<and> \<not> hasOverride s (name c) RESOURCE_ENERGY}
   \<and> (map (\<lambda>c. amountOf (assets c) RESOURCE_ENERGY) (nonExceptionalColonies s) = map Fin es
        \<longrightarrow> es \<noteq> [] \<longrightarrow>
        avgEnergy s = Fin (sum_list es / of_nat (length es))
        \<and> js_div (avgEnergy s) (Fin 5) = Fin (sum_list es / of_nat (length es) / 5))"
proof -
  have 1: "energyThresholds s = None \<longrightarrow>
      fst (getEnergyThresholds s) =
        \<lparr>target = avgEnergy s, surplus = Some (Fin 500000),
         tolerance = js_div (avgEnergy s) (Fin 5)\<rparr>
      \<and> energyThresholds (snd (getEnergyThresholds s)) = Some (fst (getEnergyThresholds s))"
    by (simp add: getEnergyThresholds_def Let_def)
  have 2: "\<forall>t. energyThresholds s = Some t \<longrightarrow> getEnergyThresholds s = (t, s)"
    by (simp add: getEnergyThresholds_def)
  have 3: "\<forall>s'. energyThresholds s' = energyThresholds (snd (getEnergyThresholds s)) \<longrightarrow>
         fst (getEnergyThresholds s') = fst (getEnergyThresholds s)"
    by (auto simp: getEnergyThresholds_def Let_def split: option.splits)
  have 4: "energyThresholds (refresh s0) = None"
    by (simp add: refresh_def)
  have 5: "set (nonExceptionalColonies s) =
       {c \<in> set (colonies s). storage c \<noteq> None \<and> \<not> hasOverride s (name c) RESOURCE_ENERGY}"
    by (auto simp: nonExceptionalColonies_def)
  have 6: "map (\<lambda>c. amountOf (assets c) RESOURCE_ENERGY) (nonExceptionalColonies s) = map Fin es
        \<longrightarrow> es \<noteq> [] \<longrightarrow>
        avgEnergy s = Fin (sum_list es / of_nat (length es))
        \<and> js_div (avgEnergy s) (Fin 5) = Fin (sum_list es / of_nat (length es) / 5)"
    by (simp add: avgEnergy_mean)
  from 1 2 3 4 5 6 show ?thesis by blast
qed

theorem energyThresholds_once_per_tick_witness:
  "fst (getEnergyThresholds (network energyColonies)) =
     \<lparr>target = Fin 200000, surplus = Some (Fin 500000), tolerance = Fin 40000\<rparr>
   \<and> fst (getEnergyThresholds
        ((snd (getEnergyThresholds (network energyColonies)))\<lparr>colonies := []\<rparr>)) =
     \<lparr>target = Fin 200000, surplus = Some (Fin 500000), tolerance = Fin 40000\<rparr>"
  using energyThresholds_once_per_tick [where s = "network energyColonies"
      and es = "[100000, 200000, 300000]"]
    energyColonies_nonExceptional energyColonies_fresh(1)
  by simp

section \<open>Idempotent refresh\<close>

text \<open>
  C9. A second \<open>refresh\<close> changes nothing: the state after two calls is the state after
  one, in which every per-tick field has its empty value.
\<close>

theorem refresh_idempotent:
  "refresh (refresh s) = refresh s
   \<and> colonyThresholds (refresh s) = Map.empty \<and> energyThresholds (refresh s) = None
   \<and> colonyStates (refresh s) = Map.empty
   \<and> activeProviders (refresh s) = Map.empty \<and> passiveProviders (refresh s) = Map.empty
   \<and> equilibriumNodes (refresh s) = Map.empty \<and> passiveRequestors (refresh s) = Map.empty
   \<and> activeRequestors (refresh s) = Map.empty
   \<and> netAssets (refresh s) = [] \<and> terminalOverload (refresh s) = Map.empty
   \<and> notifications (refresh s) = []"
  by (simp add: refresh_def)

section \<open>The invariant of thresholds\<close>

lemma thr_exportResource_default:
  "thr e (exportResource s c r None) c r = THRESHOLDS_DONT_WANT"
  by (simp add: exportResource_def thr_def thresholdsOf_def Let_def logMsg_def)

lemma getThresholds_invariant: "thresholdsInvariant (getThresholds e r)"
  by (simp add: thresholdsInvariant_def threshold_defs)

lemma richColony_avg: "avgEnergy (network [richColony]) = Fin 500000"
  by (simp add: example_defs avgEnergy_def nonExceptionalColonies_def hasOverride_def
        lodash_sum_def amountOf_def RESOURCE_ENERGY_def)

lemma richColony_fresh:
  "energyThresholds (network [richColony]) = None"
  "\<not> hasOverride (network [richColony]) n RESOURCE_ENERGY"
  by (simp_all add: example_defs hasOverride_def)

text \<open>
  C5, as the claim states it, fails. With a single colony that has a storage and
  500000 energy the derived energy thresholds are target 500000, surplus 500000 and
  tolerance 100000, so the surplus is below target + tolerance.
\<close>

theorem thresholds_invariant_counterexample:
  "\<not> thresholdsInvariant (thr exampleEnv (network [richColony]) richColony RESOURCE_ENERGY)"
  by (simp add: thr_energy_fresh [OF richColony_fresh(2) richColony_fresh(1)] richColony_avg
        thresholdsInvariant_def)

text \<open>
  C5, amended. The thresholds of a resource other than energy without an override (a static
  default) and the thresholds that \<open>exportResource\<close> sets by default satisfy
  tolerance \<le> target and, when a surplus is set, surplus \<ge> target + tolerance. The energy
  thresholds derived from a mean m \<ge> 0 satisfy tolerance \<le> target, and they satisfy
  surplus \<ge> target + tolerance exactly when 6 m \<le> 2500000.
\<close>

theorem thresholds_invariant_amended:
  "(\<not> hasOverride s (name c) r \<longrightarrow> r \<noteq> RESOURCE_ENERGY \<longrightarrow>
      thresholdsInvariant (thr e s c r))
   \<and> thresholdsInvariant (thr e (exportResource s c r None) c r)
   \<and> (\<not> hasOverride s (name c) RESOURCE_ENERGY \<longrightarrow> energyThresholds s = None \<longrightarrow>
        avgEnergy s = Fin m \<longrightarrow> 0 \<le> m \<longrightarrow>
        js_le (tolerance (thr e s c RESOURCE_ENERGY)) (target (thr e s c RESOURCE_ENERGY))
        \<and> (thresholdsInvariant (thr e s c RESOURCE_ENERGY) \<longleftrightarrow> 6 * m \<le> 2500000))"
proof -
  have 1: "\<not> hasOverride s (name c) r \<longrightarrow> r \<noteq> RESOURCE_ENERGY \<longrightarrow>
      thresholdsInvariant (thr e s c r)"
    by (simp add: thr_static getThresholds_invariant)
  have 2: "thresholdsInvariant (thr e (exportResource s c r None) c r)"
    by (simp add: thr_exportResource_default thresholdsInvariant_def THRESHOLDS_DONT_WANT_def)
  have 3: "\<not> hasOverride s (name c) RESOURCE_ENERGY \<longrightarrow> energyThresholds s = None \<longrightarrow>
        avgEnergy s = Fin m \<longrightarrow> 0 \<le> m \<longrightarrow>
        js_le (tolerance (thr e s c RESOURCE_ENERGY)) (target (thr e s c RESOURCE_ENERGY))
        \<and> (thresholdsInvariant (thr e s c RESOURCE_ENERGY) \<longleftrightarrow> 6 * m \<le> 2500000)"
    by (auto simp: thr_energy_fresh thresholdsInvariant_def)
  from 1 2 3 show ?thesis by blast
qed

theorem thresholds_invariant_amended_witness:
  "thresholdsInvariant (thr exampleEnv (network energyColonies) (energyColonies ! 0) ''U'')
   \<and> thresholdsInvariant
       (thr exampleEnv (network energyColonies) (energyColonies ! 0) RESOURCE_ENERGY)
   \<and> js_le (tolerance (thr exampleEnv (network [richColony]) richColony RESOURCE_ENERGY))
            (target (thr exampleEnv (network [richColony]) richColony RESOURCE_ENERGY))"
proof -
  have ov: "\<not> hasOverride (network energyColonies) n r" for n r
    by (simp add: example_defs hasOverride_def)
  have ne: "''U'' \<noteq> RESOURCE_ENERGY" by (simp add: RESOURCE_ENERGY_def)
  show ?thesis
    using thresholds_invariant_amended [of "network energyColonies" "energyColonies ! 0"
        "''U''" exampleEnv 200000]
      thresholds_invariant_amended [of "network [richColony]" richColony
        "''U''" exampleEnv 500000]
      ov ne energyColonies_avg energyColonies_fresh richColony_avg richColony_fresh
    by simp
qed

section \<open>Requesting a resource\<close>




section \<open>The ledger after a transfer\<close>

text \<open>
  C7. \<open>transfer\<close> returns the code of the terminal send. When the code is OK, the ledger
  entry of (resource, origin, destination) becomes its previous tally plus the amount, the
  cost entry of (origin, destination) its previous tally plus the transaction cost of the
  amount, every other entry keeps its value, one notification is appended and no overload
  flag changes. When the code is not OK, ledger, costs and notifications are unchanged and
  the sender is flagged in \<open>terminalOverload\<close> exactly when the code is
  \<open>ERR_NOT_ENOUGH_RESOURCES\<close> or \<open>ERR_TIRED\<close>.
\<close>

theorem transfer_ledger:
  "fst (transfer e s sender receiver r amount d) =
     send e (roomName sender) r amount (roomName receiver)
   \<and> (fst (transfer e s sender receiver r amount d) = OK \<longrightarrow>
        ledgerEntry (snd (transfer e s sender receiver r amount d)) r (roomName sender)
            (roomName receiver)
          = Some (js_add (ledgerAt s r (roomName sender) (roomName receiver)) amount)
        \<and> costEntry (snd (transfer e s sender receiver r amount d)) (roomName sender)
            (roomName receiver)
          = Some (js_add (costAt s (roomName sender) (roomName receiver))
              (calcTransactionCost e amount (roomName sender) (roomName receiver)))
        \<and> (\<forall>r' o' d'. (r', o', d') \<noteq> (r, roomName sender, roomName receiver) \<longrightarrow>
              ledgerEntry (snd (transfer e s sender receiver r amount d)) r' o' d'
                = ledgerEntry s r' o' d')
        \<and> (\<forall>o' d'. (o', d') \<noteq> (roomName sender, roomName receiver) \<longrightarrow>
              costEntry (snd (transfer e s sender receiver r amount d)) o' d'
                = costEntry s o' d')
        \<and> notifications (snd (transfer e s sender receiver r amount d)) =
            notifications s @
              [TransferNote (roomName sender) amount r (roomName receiver) d]
        \<and> terminalOverload (snd (transfer e s sender receiver r amount d))
            = terminalOverload s)
   \<and> (fst (transfer e s sender receiver r amount d) \<noteq> OK \<longrightarrow>
        stats (snd (transfer e s sender receiver r amount d)) = stats s
        \<and> notifications (snd (transfer e s sender receiver r amount d)) = notifications s
        \<and> terminalOverload (snd (transfer e s sender receiver r amount d)) =
            (if fst (transfer e s sender receiver r amount d) = ERR_NOT_ENOUGH_RESOURCES
                \<or> fst (transfer e s sender receiver r amount d) = ERR_TIRED
             then (terminalOverload s)(roomName sender \<mapsto> True)
             else terminalOverload s))"
  by (auto simp: transfer_def Let_def logTransfer_def logTransferCosts_def notify_def
        ledgerAt_def costAt_def ledgerEntry_def costEntry_def tally_def subTable_def
        markOverload_def logMsg_def)

theorem transfer_ledger_witness:
  "ledgerEntry (snd (transfer exampleEnv (network [requestor, donor])
       (mkTerminal ''W2N2'' []) (mkTerminal ''W1N1'' []) ''U'' (Fin 3000) ''request for U''))
     ''U'' ''W2N2'' ''W1N1'' = Some (Fin 3000)
   \<and> costEntry (snd (transfer exampleEnv (network [requestor, donor])
       (mkTerminal ''W2N2'' []) (mkTerminal ''W1N1'' []) ''U'' (Fin 3000) ''request for U''))
     ''W2N2'' ''W1N1'' = Some (Fin 100)
   \<and> stats (snd (transfer (exampleEnv\<lparr>send := (\<lambda>a b c d. ERR_TIRED)\<rparr>)
       (network [requestor, donor])
       (mkTerminal ''W2N2'' []) (mkTerminal ''W1N1'' []) ''U'' (Fin 3000) ''request for U''))
     = stats (network [requestor, donor])
   \<and> terminalOverload (snd (transfer (exampleEnv\<lparr>send := (\<lambda>a b c d. ERR_TIRED)\<rparr>)
       (network [requestor, donor])
       (mkTerminal ''W2N2'' []) (mkTerminal ''W1N1'' []) ''U'' (Fin 3000) ''request for U''))
     = [''W2N2'' \<mapsto> True]"
  using transfer_ledger [of exampleEnv "network [requestor, donor]"
       "mkTerminal ''W2N2'' []" "mkTerminal ''W1N1'' []" "''U''" "Fin 3000"
       "''request for U''"]
    transfer_ledger [of "exampleEnv\<lparr>send := (\<lambda>a b c d. ERR_TIRED)\<rparr>"
       "network [requestor, donor]"
       "mkTerminal ''W2N2'' []" "mkTerminal ''W1N1'' []" "''U''" "Fin 3000"
       "''request for U''"]
  by (simp add: ledgerAt_def costAt_def tally_def subTable_def example_defs)

section \<open>The request and provide handlers\<close>

lemma transfer_calls:
  "calls (snd (transfer e s a b r amt d)) =
     calls s @ [Send (roomName a) r amt (roomName b) (fst (transfer e s a b r amt d))]"
  by (simp add: transfer_def Let_def logTransfer_def logTransferCosts_def notify_def
        markOverload_def logMsg_def)

lemma markOverload_calls [simp]: "calls (markOverload n s) = calls s"
  by (simp add: markOverload_def)

lemma divvyPost_overload:
  "divvyPost (markOverload n s) c sentSome ps res \<Longrightarrow> divvyPost s c sentSome (p # ps) res"
  by (auto simp: divvyPost_def)

lemma divvyPost_sent:
  assumes "divvyPost s1 c ss' ps res" "calls s1 = calls s @ [Send a r amt b code]"
    "terminal c \<noteq> None" "code = OK \<longrightarrow> ss'" "sentSome \<longrightarrow> ss'"
  shows "divvyPost s c sentSome (p # ps) res"
  using assms by (auto simp: divvyPost_def)

lemma divvyLoop_post:
  "divvyPost s c sentSome ps (divvyLoop e s c r remaining sentSome ps)"
proof (induction ps arbitrary: s remaining sentSome)
  case Nil
  show ?case by (simp add: divvyPost_def)
next
  case (Cons p ps)
  show ?case
  proof (cases "terminal p")
    case None
    then show ?thesis by (simp add: divvyPost_def)
  next
    case (Some st)
    note st = Some
    define amt where "amt = js_min3 (js_sub (amountOf (termStore st) r) (target (thr e s p r)))
                              remaining (Fin (maxAmount r))"
    show ?thesis
    proof (cases "isReady st")
      case False
      show ?thesis
      proof (cases "js_le remaining (Fin 0)")
        case True
        with False st show ?thesis by (simp add: divvyPost_def)
      next
        case nle: False
        have "divvyPost s c sentSome (p # ps)
                (divvyLoop e (markOverload (roomName st) s) c r remaining sentSome ps)"
          by (rule divvyPost_overload) (rule Cons.IH)
        with False nle st show ?thesis by simp
      qed
    next
      case True
      note ready = True
      show ?thesis
      proof (cases "terminal c")
        case None
        with ready st show ?thesis by (simp add: divvyPost_def)
      next
        case (Some rt)
        define res where "res = transfer e s st rt r amt (''request for '' @ r)"
        have c: "calls (snd res) = calls s @ [Send (roomName st) r amt (roomName rt) (fst res)]"
          by (simp add: res_def transfer_calls)
        have tc: "terminal c \<noteq> None" using Some by simp
        show ?thesis
        proof (cases "fst res = OK")
          case True
          note ok = True
          show ?thesis
          proof (cases "js_le (js_sub remaining amt) (Fin 0)")
            case True
            have "divvyPost s c sentSome (p # ps) (Inr True, snd res)"
              using c tc by (auto simp: divvyPost_def)
            with True ok ready st Some show ?thesis
              by (simp add: res_def amt_def Let_def)
          next
            case False
            have "divvyPost s c sentSome (p # ps)
                    (divvyLoop e (snd res) c r (js_sub remaining amt) True ps)"
              by (rule divvyPost_sent [OF Cons.IH c tc]) simp_all
            with False ok ready st Some show ?thesis
              by (simp add: res_def amt_def Let_def)
          qed
        next
          case False
          note nok = False
          show ?thesis
          proof (cases "js_le remaining (Fin 0)")
            case True
            have "divvyPost s c sentSome (p # ps)
                    (Inr True, markOverload (roomName st) (snd res))"
              using c tc by (auto simp: divvyPost_def)
            with True nok ready st Some show ?thesis
              by (simp add: res_def amt_def Let_def)
          next
            case False
            have c': "calls (markOverload (roomName st) (snd res)) =
                       calls s @ [Send (roomName st) r amt (roomName rt) (fst res)]"
              using c by simp
            have "divvyPost s c sentSome (p # ps)
                    (divvyLoop e (markOverload (roomName st) (snd res)) c r remaining sentSome ps)"
              by (rule divvyPost_sent [OF Cons.IH c' tc]) (simp_all add: nok)
            with False nok ready st Some show ?thesis
              by (simp add: res_def amt_def Let_def)
          qed
        qed
      qed
    qed
  qed
qed

lemma divvyLoop_calls:
  "\<exists>new. calls (snd (divvyLoop e s c r remaining sentSome ps)) = calls s @ new"
  using divvyLoop_post [of s c sentSome ps e r remaining] by (auto simp: divvyPost_def)

lemma divvyLoop_first_send:
  assumes "terminal p = Some st" "isReady st" "terminal c = Some rt"
  shows "\<exists>more. calls (snd (divvyLoop e s c r remaining sentSome (p # rest))) =
     calls s @
       Send (roomName st) r
         (js_min3 (js_sub (amountOf (termStore st) r) (target (thr e s p r))) remaining
            (Fin (maxAmount r)))
         (roomName rt)
         (send e (roomName st) r
            (js_min3 (js_sub (amountOf (termStore st) r) (target (thr e s p r))) remaining
               (Fin (maxAmount r)))
            (roomName rt)) # more"
proof -
  define amt where "amt = js_min3 (js_sub (amountOf (termStore st) r) (target (thr e s p r)))
                              remaining (Fin (maxAmount r))"
  define res where "res = transfer e s st rt r amt (''request for '' @ r)"
  have f: "fst res = send e (roomName st) r amt (roomName rt)"
    by (simp add: res_def transfer_def Let_def)
  have c: "calls (snd res) = calls s @ [Send (roomName st) r amt (roomName rt) (fst res)]"
    by (simp add: res_def transfer_calls)
  obtain n1 where n1: "calls (snd (divvyLoop e (snd res) c r (js_sub remaining amt) True rest))
      = calls (snd res) @ n1"
    using divvyLoop_calls by blast
  obtain n2 where n2: "calls (snd (divvyLoop e (markOverload (roomName st) (snd res)) c r
      remaining sentSome rest)) = calls (markOverload (roomName st) (snd res)) @ n2"
    using divvyLoop_calls by blast
  have step: "divvyLoop e s c r remaining sentSome (p # rest) =
      (if fst res = OK then
         (if js_le (js_sub remaining amt) (Fin 0) then (Inr True, snd res)
          else divvyLoop e (snd res) c r (js_sub remaining amt) True rest)
       else
         (if js_le remaining (Fin 0) then (Inr True, markOverload (roomName st) (snd res))
          else divvyLoop e (markOverload (roomName st) (snd res)) c r remaining sentSome rest))"
    unfolding res_def amt_def using assms by (simp add: Let_def)
  have "\<exists>more. calls (snd (divvyLoop e s c r remaining sentSome (p # rest))) =
     calls s @ Send (roomName st) r amt (roomName rt) (fst res) # more"
    unfolding step using c n1 n2 by simp
  then show ?thesis by (simp add: f amt_def)
qed

lemma marketBuy_calls:
  "\<exists>new. calls (snd (marketBuy e s c r amt opts)) = calls s @ new"
  by (simp add: marketBuy_def Let_def)

lemma divvyPartners_filter:
  assumes "p \<in> set (divvyPartners e s r partnerSets)"
  shows "js_gt (amountOf (assets p) r) (target (thr e s p r)) \<and> p \<in> set (concat partnerSets)"
proof -
  have "p \<in> set (sort_key (\<lambda>partner. finVal (js_sub (amountOf (assets partner) r)
                                                   (target (thr e s partner r))))
          (filter (\<lambda>partner. js_gt (amountOf (assets partner) r) (target (thr e s partner r)))
             (concat partnerSets)))"
    using assms unfolding divvyPartners_def by (rule in_set_takeD)
  then show ?thesis by simp
qed

text \<open>
  C10. In the divvy fallback a partner is admitted by its total assets of the resource
  (assets above its target), while the amount it can send is its terminal store minus the
  target. Whenever the first chosen partner has a ready terminal whose store of the resource
  is below the partner's target, the amount min (store - target, need, maximum) is
  negative, and it is what the handler passes to the terminal send.
\<close>

theorem divvy_negative_send:
  assumes "allowDivvying opts"
    and "singlePartner e s c r (Fin q) partnerSets = None"
    and "divvyPartners e s r partnerSets = p # rest"
    and "terminal p = Some st" and "isReady st" and "terminal c = Some rt"
    and "amountOf (termStore st) r = Fin h" and "target (thr e s p r) = Fin tg"
    and "h < tg"
  shows "js_gt (amountOf (assets p) r) (Fin tg)
     \<and> (\<exists>a more. a < 0 \<and> a = min (min (h - tg) q) (maxAmount r)
          \<and> calls (snd (handleRequestInstance e s c r (Fin q) partnerSets opts)) =
              calls s @ Send (roomName st) r (Fin a) (roomName rt)
                          (send e (roomName st) r (Fin a) (roomName rt)) # more)"
proof -
  have "p \<in> set (divvyPartners e s r partnerSets)"
    using assms(3) by simp
  then have 1: "js_gt (amountOf (assets p) r) (Fin tg)"
    using divvyPartners_filter assms(8) by metis
  define a where "a = min (min (h - tg) q) (maxAmount r)"
  have neg: "a < 0" using assms(9) by (simp add: a_def min_def)
  have amt: "js_min3 (js_sub (amountOf (termStore st) r) (target (thr e s p r))) (Fin q)
               (Fin (maxAmount r)) = Fin a"
    by (simp add: assms(7,8) js_min3_def a_def)
  obtain more where more: "calls (snd (divvyLoop e s c r (Fin q) False (p # rest))) =
      calls s @ Send (roomName st) r (Fin a) (roomName rt)
                  (send e (roomName st) r (Fin a) (roomName rt)) # more"
    using divvyLoop_first_send [OF assms(4,5,6), of e s r "Fin q" False rest] amt by auto
  define res where "res = divvyLoop e s c r (Fin q) False (p # rest)"
  obtain n where n: "calls (snd (marketBuy e (snd res) c r (Fin q) opts)) = calls (snd res) @ n"
    using marketBuy_calls by blast
  have h: "handleRequestInstance e s c r (Fin q) partnerSets opts =
      (case res of (Inl err, s1) \<Rightarrow> (Inl err, s1) | (Inr True, s1) \<Rightarrow> (Inr True, s1)
        | (Inr False, s1) \<Rightarrow> marketBuy e s1 c r (Fin q) opts)"
    using assms(1,2,3) by (simp add: handleRequestInstance_def res_def del: divvyLoop.simps)
  have "\<exists>more'. calls (snd (handleRequestInstance e s c r (Fin q) partnerSets opts)) =
      calls s @ Send (roomName st) r (Fin a) (roomName rt)
                  (send e (roomName st) r (Fin a) (roomName rt)) # more'"
    unfolding h using more n unfolding res_def [symmetric]
    by (cases res) (auto split: sum.splits bool.splits)
  with 1 neg show ?thesis unfolding a_def by blast
qed


lemma addColony_keeps [simp]:
  "colonyThresholds (addColony s c) = colonyThresholds s"
  "energyThresholds (addColony s c) = energyThresholds s"
  "stats (addColony s c) = stats s"
  "calls (addColony s c) = calls s"
  by (simp_all add: addColony_def logMsg_def)

lemma foldl_addColony_keeps [simp]:
  "colonyThresholds (foldl addColony s cs) = colonyThresholds s"
  "energyThresholds (foldl addColony s cs) = energyThresholds s"
  "stats (foldl addColony s cs) = stats s"
  "calls (foldl addColony s cs) = calls s"
  by (induction cs arbitrary: s) simp_all

lemma network_fresh [simp]:
  "colonyThresholds (network cs) = Map.empty"
  "energyThresholds (network cs) = None"
  "stats (network cs) = emptyStats"
  "calls (network cs) = []"
  by (simp_all add: network_def init_def getAssets_def constructor_def refresh_def)

lemma U_thr:
  "thr exampleEnv (network cs) c ''U'' =
     \<lparr>target = Fin 7000, surplus = Some (Fin 45000), tolerance = Fin 1000\<rparr>"
  by (simp add: thr_def thresholdsOf_def resource_defs threshold_defs exampleEnv_def)

lemma fst_transfer: "fst (transfer e s a b r amt d) = send e (roomName a) r amt (roomName b)"
  by (simp add: transfer_def Let_def)

lemma thr_cong:
  "colonyThresholds s' = colonyThresholds s \<Longrightarrow> energyThresholds s' = energyThresholds s \<Longrightarrow>
   colonies s' = colonies s \<Longrightarrow> thr e s' c r = thr e s c r"
  by (simp add: thr_def thresholdsOf_def getEnergyThresholds_def avgEnergy_def
        nonExceptionalColonies_def hasOverride_def Let_def split: option.splits)

lemma thr_transfer [simp]: "thr e (snd (transfer e' s a b r' amt d)) c r = thr e s c r"
  by (rule thr_cong)
     (simp_all add: transfer_def Let_def logTransfer_def logTransferCosts_def notify_def
        markOverload_def logMsg_def)

lemma thr_markOverload [simp]: "thr e (markOverload n s) c r = thr e s c r"
  by (rule thr_cong) (simp_all add: markOverload_def)

lemma exampleEnv_sel:
  "send exampleEnv = (\<lambda>sender r amount destination. OK)"
  "calcTransactionCost exampleEnv = (\<lambda>amount origin destination. Fin 100)"
  "credits exampleEnv = Fin 0"
  "buy exampleEnv = (\<lambda>c r amount. Fin 0)"
  "isBoost exampleEnv = (\<lambda>r. False)"
  by (simp_all add: exampleEnv_def)

lemmas colony_defs = requestor_def donor_def keeper_def partner1_def partner2_def
  partner3_def partner4_def mkColony_def mkTerminal_def

text \<open>
  C2. The divvy fallback sorts the admitted partners with \<open>sortBy\<close>, which is ascending,
  and takes the first three: of four partners with an excess of 1000, 2000, 3000 and 4000
  it draws from those with 1000, 2000 and 3000, in this order, and leaves out the partner
  with the greatest excess. The comment at the selection asks for the three with the most.
\<close>

theorem divvyPartners_ascending_example:
  "divvyPartners exampleEnv (network [requestor, partner1, partner2, partner3, partner4]) ''U''
     [[partner4, partner3], [partner2, partner1]] = [partner1, partner2, partner3]"
  by (simp add: divvyPartners_def U_thr colony_defs amountOf_def MAX_SEND_REQUESTS_def
        sort_key_def)

text \<open>
  C1. In the single-partner path of the request handler the amount passed to the send is
  \<open>requestAmount\<close>, and the \<open>sendAmount\<close> computed one line earlier is not used: a request
  for 5000 of a mineral sends 5000, above the maximum of 3000 which \<open>sendAmount\<close> holds.
  The push path of the provide handler passes the bounded amount (\<open>provideToBest_send\<close>).
\<close>

theorem request_sends_requestAmount_example:
  "calls (snd (handleRequestInstance exampleEnv (network [requestor, donor]) requestor ''U''
       (Fin 5000) [[donor]] divvyOpts)) = [Send ''W2N2'' ''U'' (Fin 5000) ''W1N1'' OK]
   \<and> \<not> 5000 \<le> maxAmount ''U''
   \<and> js_min3 (Fin 5000) (amountOf (termStore (mkTerminal ''W2N2'' [(''U'', Fin 10000)])) ''U'')
        (Fin (maxAmount ''U'')) = Fin 3000"
  by (simp add: handleRequestInstance_def validSenders_def strictSenders_def U_thr
        colony_defs amountOf_def requestFromBest_def getBestSenderColony_def maxBy_def
        senderScore_def transfer_calls fst_transfer exampleEnv_sel emptyStats_def
        maxAmount_def resource_defs maxResourceSendAmount_def js_min3_def)


lemma keeper_example_calls:
  "calls (snd (handleRequestInstance exampleEnv
       (network [requestor, keeper]) requestor ''U''
       (Fin 5000) [[keeper]] divvyOpts)) =
     [Send ''W3N3'' ''U'' (Fin (- 6000)) ''W1N1'' OK]"
  by (simp add: handleRequestInstance_def validSenders_def strictSenders_def relaxedSenders_def
        divvyPartners_def MAX_SEND_REQUESTS_def sort_key_def U_thr
        colony_defs amountOf_def transfer_calls fst_transfer exampleEnv_sel divvyOpts_def
        maxAmount_def resource_defs maxResourceSendAmount_def js_min3_def Let_def)




lemma keeper_example_single:
  "singlePartner exampleEnv (network [requestor, keeper]) requestor ''U''
       (Fin 5000) [[keeper]] = None"
  by (simp add: validSenders_def strictSenders_def relaxedSenders_def U_thr colony_defs
        amountOf_def)

lemma keeper_example_partners:
  "divvyPartners exampleEnv (network [requestor, keeper]) ''U'' [[keeper]] = keeper # []"
  by (simp add: divvyPartners_def U_thr colony_defs amountOf_def MAX_SEND_REQUESTS_def
        sort_key_def)

theorem divvy_negative_send_witness:
  "js_gt (amountOf (assets keeper) ''U'') (Fin 7000)
   \<and> (\<exists>a more. a < 0 \<and> a = min (min (1000 - 7000) 5000) (maxAmount ''U'')
        \<and> calls (snd (handleRequestInstance exampleEnv (network [requestor, keeper])
              requestor ''U'' (Fin 5000) [[keeper]] divvyOpts)) =
            calls (network [requestor, keeper]) @
              Send ''W3N3'' ''U'' (Fin a) ''W1N1'' OK # more)"
proof -
  have 1: "allowDivvying divvyOpts" by (simp add: divvyOpts_def)
  have 4: "terminal keeper = Some (mkTerminal ''W3N3'' [(''U'', Fin 1000)])"
    by (simp add: keeper_def mkColony_def)
  have 5: "isReady (mkTerminal ''W3N3'' [(''U'', Fin 1000)])"
    by (simp add: mkTerminal_def)
  have 6: "terminal requestor = Some (mkTerminal ''W1N1'' [(''U'', Fin 2000)])"
    by (simp add: requestor_def mkColony_def)
  have 7: "amountOf (termStore (mkTerminal ''W3N3'' [(''U'', Fin 1000)])) ''U'' = Fin 1000"
    by (simp add: mkTerminal_def amountOf_def)
  have 8: "target (thr exampleEnv (network [requestor, keeper]) keeper ''U'') = Fin 7000"
    by (simp add: U_thr)
  have 9: "(1000 :: rat) < 7000" by simp
  show ?thesis
    using divvy_negative_send [OF 1 keeper_example_single keeper_example_partners 4 5 6 7 8 9]
    by (simp add: mkTerminal_def exampleEnv_sel)
qed

lemma provideToBest_send:
  assumes "minBy validPartners (\<lambda>partner. calcTransactionCost e (Fin q) (name c) (name partner))
             = Some best"
    and "terminal c = Some st" and "isReady st" and "terminal best = Some rt"
    and "amountOf (termStore st) r = Fin h"
  shows "\<exists>code. calls (snd (provideToBest e s c r (Fin q) validPartners)) =
           calls s @ [Send (roomName st) r (Fin (min (min q h) (maxAmount r))) (roomName rt) code]
         \<and> min (min q h) (maxAmount r) \<le> maxAmount r \<and> min (min q h) (maxAmount r) \<le> h"
  using assms by (simp add: provideToBest_def Let_def js_min3_def transfer_calls)

end
